theory Spec2Isabelle
  imports Main "HOL-Library.AList"
begin

section \<open>Python values\<close>

text \<open>
  The values that travel through the handlers of \<^verbatim>\<open>main.py\<close>: decoded JSON bodies,
  validated schema objects and the documents the store hands back. A Python \<^verbatim>\<open>str\<close> is
  kept as the bytes of its UTF-8 encoding, so equality, emptiness and list membership
  agree with Python's; only slicing has to count code points (see \<open>str_slice_to\<close>).
  A \<^verbatim>\<open>dict\<close> is an association list in insertion order, each key listed once and
  read with \<^const>\<open>map_of\<close>. \<open>POpaque\<close> stands for every value whose inside this
  program never looks at: a float, the store's \<^verbatim>\<open>ObjectId\<close>, a \<^verbatim>\<open>datetime\<close>.
\<close>

datatype 'o pyval =
    PNone
  | PBool bool
  | PInt int
  | PStr string
  | PList "'o pyval list"
  | PDict "(string \<times> 'o pyval) list"
  | POpaque 'o

type_synonym 'o pydict = "(string \<times> 'o pyval) list"

text \<open>
  A callee that lives outside \<^verbatim>\<open>main.py\<close> and \<^verbatim>\<open>schemas.py\<close> may raise: its result is
  \<open>Inl m\<close> when it raised an exception \<open>e\<close> with \<^verbatim>\<open>str(e)\<close> equal to \<open>m\<close>.
\<close>

type_synonym 'a raising = "string + 'a"

section \<open>schemas.py: the four shapes\<close>

text \<open>
  A pydantic class body is a declaration: an ordered list of fields, each with a name,
  an annotation and either no default (\<^verbatim>\<open>...\<close>, the field is required) or a default
  value (\<^verbatim>\<open>default_factory=list\<close> and \<^verbatim>\<open>default_factory=dict\<close> produce a fresh empty
  list or dict).
\<close>

datatype ftype =
    TStr
  | TInt
  | TBool
  | TAny
  | TOptional ftype
  | TList ftype
  | TDict ftype
  | TLiteral "string list"

datatype 'o fdefault = Required | Default "'o pyval"

datatype 'o field_info = Field (fname: string) (ftype: ftype) (fdefault: "'o fdefault")

type_synonym 'o shape = "'o field_info list"

definition Model :: "'o shape" where
  "Model =
    [ Field ''name'' TStr Required,
      Field ''description'' (TOptional TStr) (Default PNone),
      Field ''identity_seed'' (TOptional TStr) (Default PNone),
      Field ''tags'' (TList TStr) (Default (PList [])),
      Field ''style_preset'' (TOptional TStr) (Default PNone),
      Field ''face_embeddings'' (TOptional (TList TStr)) (Default PNone),
      Field ''consistency_profile'' (TDict TAny) (Default (PDict [])) ]"

definition Pipeline :: "'o shape" where
  "Pipeline =
    [ Field ''name'' TStr Required,
      Field ''version'' TStr (Default (PStr ''1.0'')),
      Field ''is_active'' TBool (Default (PBool True)),
      Field ''nodes'' (TList (TDict TAny)) (Default (PList [])),
      Field ''edges'' (TList (TDict TAny)) (Default (PList [])) ]"

definition Dataset :: "'o shape" where
  "Dataset =
    [ Field ''model_id'' (TOptional TStr) (Default PNone),
      Field ''title'' TStr Required,
      Field ''status'' (TLiteral [''idle'', ''building'', ''ready'', ''failed''])
        (Default (PStr ''idle'')),
      Field ''size'' TInt (Default (PInt 0)),
      Field ''items'' (TList (TDict TAny)) (Default (PList [])) ]"

definition Job :: "'o shape" where
  "Job =
    [ Field ''type''
        (TLiteral [''face'', ''fullbody'', ''angles360'', ''expression'', ''background'',
                   ''dress'', ''dataset''])
        Required,
      Field ''model_id'' (TOptional TStr) (Default PNone),
      Field ''pipeline_id'' (TOptional TStr) (Default PNone),
      Field ''params'' (TDict TAny) (Default (PDict [])),
      Field ''status'' (TLiteral [''queued'', ''running'', ''succeeded'', ''failed''])
        (Default (PStr ''queued'')),
      Field ''progress'' TInt (Default (PInt 0)),
      Field ''output'' (TList (TDict TAny)) (Default (PList [])) ]"

section \<open>Validation of a payload against a shape\<close>

text \<open>
  pydantic validates in its lax mode: a scalar field takes a value of its own type as it
  is, and may also convert some other values (the text \<^verbatim>\<open>"40"\<close> for an \<^verbatim>\<open>int\<close>).
  Which ones is pydantic's business, not this repository's, so the conversions are a
  parameter; every result below holds for any choice of them. A \<^verbatim>\<open>Literal\<close> of strings
  takes exactly the listed strings, \<^verbatim>\<open>Optional\<close> adds \<^verbatim>\<open>None\<close>, \<^verbatim>\<open>Any\<close> takes
  everything, and containers are validated element by element.
\<close>

record 'o lax =
  lax_str :: "'o pyval \<Rightarrow> string option"
  lax_int :: "'o pyval \<Rightarrow> int option"
  lax_bool :: "'o pyval \<Rightarrow> bool option"

fun sequence :: "'a option list \<Rightarrow> 'a list option" where
  "sequence [] = Some []"
| "sequence (None # _) = None"
| "sequence (Some x # xs) = (case sequence xs of None \<Rightarrow> None | Some ys \<Rightarrow> Some (x # ys))"

fun validate_type :: "'o lax \<Rightarrow> ftype \<Rightarrow> 'o pyval \<Rightarrow> 'o pyval option" where
  "validate_type lx TAny v = Some v"
| "validate_type lx TStr v =
     (case v of PStr s \<Rightarrow> Some (PStr s) | _ \<Rightarrow> map_option PStr (lax_str lx v))"
| "validate_type lx TInt v =
     (case v of PInt n \<Rightarrow> Some (PInt n) | _ \<Rightarrow> map_option PInt (lax_int lx v))"
| "validate_type lx TBool v =
     (case v of PBool b \<Rightarrow> Some (PBool b) | _ \<Rightarrow> map_option PBool (lax_bool lx v))"
| "validate_type lx (TLiteral allowed) v =
     (case v of PStr s \<Rightarrow> if s \<in> set allowed then Some (PStr s) else None | _ \<Rightarrow> None)"
| "validate_type lx (TOptional t) v =
     (case v of PNone \<Rightarrow> Some PNone | _ \<Rightarrow> validate_type lx t v)"
| "validate_type lx (TList t) v =
     (case v of
        PList xs \<Rightarrow> map_option PList (sequence (map (validate_type lx t) xs))
      | _ \<Rightarrow> None)"
| "validate_type lx (TDict t) v =
     (case v of
        PDict kvs \<Rightarrow>
          map_option PDict
            (sequence (map (\<lambda>kv. map_option (Pair (fst kv)) (validate_type lx t (snd kv))) kvs))
      | _ \<Rightarrow> None)"

text \<open>
  A validated object lists its fields in declaration order. A key of the payload that
  names no field is ignored (pydantic's default). A field the payload omits takes its
  default, unvalidated; a required one fails the validation.
\<close>

type_synonym 'o obj = "(string \<times> 'o pyval) list"

datatype exn = ValidationError | AttributeError | Exception string

definition field_value :: "'o lax \<Rightarrow> 'o field_info \<Rightarrow> 'o pydict \<Rightarrow> 'o pyval option" where
  "field_value lx f kvs =
     (case map_of kvs (fname f) of
        None \<Rightarrow> (case fdefault f of Required \<Rightarrow> None | Default v \<Rightarrow> Some v)
      | Some x \<Rightarrow> validate_type lx (ftype f) x)"

fun validate_fields :: "'o lax \<Rightarrow> 'o shape \<Rightarrow> 'o pydict \<Rightarrow> exn + 'o obj" where
  "validate_fields lx [] kvs = Inr []"
| "validate_fields lx (f # fs) kvs =
     (case field_value lx f kvs of
        None \<Rightarrow> Inl ValidationError
      | Some v \<Rightarrow>
          (case validate_fields lx fs kvs of
             Inl e \<Rightarrow> Inl e
           | Inr rest \<Rightarrow> Inr ((fname f, v) # rest)))"

definition model_validate :: "'o lax \<Rightarrow> 'o shape \<Rightarrow> 'o pyval \<Rightarrow> exn + 'o obj" where
  "model_validate lx shape body =
     (case body of PDict kvs \<Rightarrow> validate_fields lx shape kvs | _ \<Rightarrow> Inl ValidationError)"

text \<open>Attribute access on a validated object.\<close>

definition getattr :: "'o obj \<Rightarrow> string \<Rightarrow> exn + 'o pyval" where
  "getattr ob k = (case map_of ob k of None \<Rightarrow> Inl AttributeError | Some v \<Rightarrow> Inr v)"

section \<open>main.py: what the handlers are given\<close>

text \<open>
  \<^verbatim>\<open>database.py\<close> is not part of the verified sources, so its two helpers are parameters of
  the handlers. \<open>create_document\<close> takes the collection name and the validated object,
  changes the store \<open>'s\<close> and returns the new identifier or raises; \<open>get_documents\<close>
  reads the documents of a collection or raises. \<^verbatim>\<open>str\<close> on a stored value is Python's,
  a parameter as well.

  A route ends in one of three ways: the handler's return value (200), FastAPI's
  rejection of a body that fails validation (422, the handler never runs), or an
  exception that left the handler (500).
\<close>

datatype 'a http = OK 'a | Unprocessable_Entity | Internal_Server_Error exn

definition respond :: "(exn + 'a) \<times> 's \<Rightarrow> 'a http \<times> 's" where
  "respond r = (case r of (Inl e, s) \<Rightarrow> (Internal_Server_Error e, s) | (Inr v, s) \<Rightarrow> (OK v, s))"

subsection \<open>GET /test\<close>

definition CHECK_MARK :: string where
  "CHECK_MARK = [CHR 0xE2, CHR 0x9C, CHR 0x85]"

definition CROSS_MARK :: string where
  "CROSS_MARK = [CHR 0xE2, CHR 0x9D, CHR 0x8C]"

definition WARNING_SIGN :: string where
  "WARNING_SIGN = [CHR 0xE2, CHR 0x9A, CHR 0xA0, CHR 0xEF, CHR 0xB8, CHR 0x8F]"

text \<open>
  \<^verbatim>\<open>s[:n]\<close> keeps the first \<open>n\<close> code points. In UTF-8 a code point is one leading byte
  and the continuation bytes (\<open>0x80\<close> to \<open>0xBF\<close>) after it.
\<close>

definition is_continuation :: "char \<Rightarrow> bool" where
  "is_continuation c = (128 \<le> (of_char c :: nat) \<and> (of_char c :: nat) < 192)"

fun str_slice_to :: "nat \<Rightarrow> string \<Rightarrow> string" where
  "str_slice_to n [] = []"
| "str_slice_to n (c # cs) =
     (if is_continuation c then c # str_slice_to n cs
      else (case n of 0 \<Rightarrow> [] | Suc m \<Rightarrow> c # str_slice_to m cs))"

text \<open>
  A block of statements works on the response dict and either completes or raises; what
  it wrote before raising stays written. \<open>Some m\<close> is an exception in flight, with its
  \<^verbatim>\<open>str\<close>.
\<close>

type_synonym 'r block = "'r \<Rightarrow> string option \<times> 'r"

definition try_except :: "'r block \<Rightarrow> (string \<Rightarrow> 'r block) \<Rightarrow> 'r block" where
  "try_except body handler r =
     (case body r of (None, r') \<Rightarrow> (None, r') | (Some e, r') \<Rightarrow> handler e r')"

definition initial_response :: "'o pydict" where
  "initial_response =
    [ (''backend'', PStr (CHECK_MARK @ '' Running'')),
      (''database'', PStr (CROSS_MARK @ '' Not Available'')),
      (''database_url'', PStr (CROSS_MARK @ '' Not Set'')),
      (''database_name'', PStr (CROSS_MARK @ '' Not Set'')),
      (''connection_status'', PStr ''Not Connected''),
      (''collections'', PList []) ]"

definition list_collections_body :: "'db \<Rightarrow> ('db \<Rightarrow> string list raising) \<Rightarrow> 'o pydict block" where
  "list_collections_body d list_collection_names response =
     (case list_collection_names d of
        Inl e \<Rightarrow> (Some e, response)
      | Inr collections \<Rightarrow>
          (None,
           AList.update ''database'' (PStr (CHECK_MARK @ '' Connected & Working''))
             (AList.update ''collections'' (PList (map PStr (take 10 collections))) response)))"

definition list_collections_handler :: "string \<Rightarrow> 'o pydict block" where
  "list_collections_handler e response =
     (None,
      AList.update ''database''
        (PStr (WARNING_SIGN @ '' Connected but Error: '' @ str_slice_to 80 e)) response)"

definition test_database_body ::
  "'db option \<Rightarrow> ('db \<Rightarrow> string list raising) \<Rightarrow> (string \<Rightarrow> string option) \<Rightarrow> 'o pydict block"
where
  "test_database_body db list_collection_names getenv response =
     (case db of
        Some d \<Rightarrow>
          try_except (list_collections_body d list_collection_names) list_collections_handler
            (AList.update ''connection_status'' (PStr ''Connected'')
              (AList.update ''database_name''
                 (PStr (case getenv ''DATABASE_NAME'' of
                          None \<Rightarrow> CROSS_MARK @ '' Not Set''
                        | Some v \<Rightarrow> if v \<noteq> [] then v else CROSS_MARK @ '' Not Set''))
                (AList.update ''database_url''
                   (PStr (case getenv ''DATABASE_URL'' of
                            None \<Rightarrow> CROSS_MARK @ '' Not Set''
                          | Some v \<Rightarrow>
                              if v \<noteq> [] then CHECK_MARK @ '' Set'' else CROSS_MARK @ '' Not Set''))
                  (AList.update ''database'' (PStr (CHECK_MARK @ '' Available'')) response))))
      | None \<Rightarrow>
          (None,
           AList.update ''database'' (PStr (WARNING_SIGN @ '' Available but not initialized''))
             response))"

definition test_database_handler :: "string \<Rightarrow> 'o pydict block" where
  "test_database_handler e response =
     (None, AList.update ''database'' (PStr (CROSS_MARK @ '' Error: '' @ str_slice_to 80 e)) response)"

definition test_database ::
  "'db option \<Rightarrow> ('db \<Rightarrow> string list raising) \<Rightarrow> (string \<Rightarrow> string option) \<Rightarrow> exn + 'o pydict"
where
  "test_database db list_collection_names getenv =
     (case try_except (test_database_body db list_collection_names getenv) test_database_handler
             initial_response of
        (None, response) \<Rightarrow> Inr response
      | (Some e, _) \<Rightarrow> Inl (Exception e))"

subsection \<open>GET /schema\<close>

text \<open>
  \<^verbatim>\<open>model_json_schema()["properties"]\<close> has one key per declared field, in declaration
  order. The route validates the handler's dict against \<open>SchemaResponse\<close>.
\<close>

definition properties_keys :: "'o shape \<Rightarrow> string list" where
  "properties_keys shape = map fname shape"

definition SchemaResponse :: "'o shape" where
  "SchemaResponse = [Field ''collections'' (TList (TDict TAny)) Required]"

definition collection_entry :: "string \<Rightarrow> 'o shape \<Rightarrow> 'o pyval" where
  "collection_entry name shape =
     PDict [(''name'', PStr name), (''fields'', PList (map PStr (properties_keys shape)))]"

definition get_schema :: "'o pydict" where
  "get_schema =
    [ (''collections'',
       PList
        [ collection_entry ''model'' (Model :: 'o shape),
          collection_entry ''pipeline'' (Pipeline :: 'o shape),
          collection_entry ''dataset'' (Dataset :: 'o shape),
          collection_entry ''job'' (Job :: 'o shape) ]) ]"

definition get_schema_route :: "'o lax \<Rightarrow> 'o obj http" where
  "get_schema_route lx =
     (case model_validate lx SchemaResponse (PDict get_schema) of
        Inl e \<Rightarrow> Internal_Server_Error e
      | Inr r \<Rightarrow> OK r)"

subsection \<open>The collection endpoints\<close>

text \<open>
  \<^verbatim>\<open>d["id"] = str(d.pop("_id"))\<close>, under \<^verbatim>\<open>if "_id" in d\<close>: the pop removes the key and
  yields its value, the assignment overwrites an \<^verbatim>\<open>id\<close> already there or appends one.
\<close>

definition expose_id :: "('o pyval \<Rightarrow> string) \<Rightarrow> 'o pydict \<Rightarrow> 'o pydict" where
  "expose_id str d =
     (case map_of d ''_id'' of
        None \<Rightarrow> d
      | Some raw \<Rightarrow> AList.update ''id'' (PStr (str raw)) (AList.delete ''_id'' d))"

definition list_collection ::
  "string \<Rightarrow> (string \<Rightarrow> 's \<Rightarrow> 'o pydict list raising) \<Rightarrow> ('o pyval \<Rightarrow> string) \<Rightarrow> 's \<Rightarrow> exn + 'o pydict"
where
  "list_collection name get_documents str s =
     (case get_documents name s of
        Inl e \<Rightarrow> Inl (Exception e)
      | Inr docs \<Rightarrow> Inr [(''items'', PList (map (\<lambda>d. PDict (expose_id str d)) docs))])"

definition list_models where "list_models = list_collection ''model''"

definition list_pipelines where "list_pipelines = list_collection ''pipeline''"

definition list_jobs where "list_jobs = list_collection ''job''"

definition create_job ::
  "(string \<Rightarrow> 'o obj \<Rightarrow> 's \<Rightarrow> 'o pyval raising \<times> 's) \<Rightarrow> 'o obj \<Rightarrow> 's \<Rightarrow> (exn + 'o pydict) \<times> 's"
where
  "create_job create_document payload s =
     (case create_document ''job'' payload s of
        (Inl e, s') \<Rightarrow> (Inl (Exception e), s')
      | (Inr inserted_id, s') \<Rightarrow>
          (case getattr payload ''status'' of
             Inl e \<Rightarrow> (Inl e, s')
           | Inr st \<Rightarrow> (Inr [(''id'', inserted_id), (''status'', st)], s')))"

definition post_jobs ::
  "'o lax \<Rightarrow> (string \<Rightarrow> 'o obj \<Rightarrow> 's \<Rightarrow> 'o pyval raising \<times> 's) \<Rightarrow> 'o pyval \<Rightarrow> 's \<Rightarrow> 'o pydict http \<times> 's"
where
  "post_jobs lx create_document body s =
     (case model_validate lx Job body of
        Inl _ \<Rightarrow> (Unprocessable_Entity, s)
      | Inr payload \<Rightarrow> respond (create_job create_document payload s))"

subsection \<open>POST /generate\<close>

record 'o GenerateRequest =
  model_id :: "string option"
  pipeline_id :: "string option"
  task :: string
  promptless :: bool
  params :: "'o pydict"

definition optional_str :: "string option \<Rightarrow> 'o pyval" where
  "optional_str x = (case x of None \<Rightarrow> PNone | Some s \<Rightarrow> PStr s)"

text \<open>The call \<^verbatim>\<open>JobSchema(type=..., ...)\<close>: pydantic validates the keyword arguments.\<close>

definition generate_job :: "'o lax \<Rightarrow> 'o GenerateRequest \<Rightarrow> exn + 'o obj" where
  "generate_job lx req =
     model_validate lx Job
       (PDict
         [ (''type'',
            PStr (if task req \<in> set [''face'', ''fullbody'', ''angles360'', ''expression'',
                                      ''background'', ''dress'']
                  then task req else ''dataset'')),
           (''model_id'', optional_str (model_id req)),
           (''pipeline_id'', optional_str (pipeline_id req)),
           (''params'', PDict (if params req \<noteq> [] then params req else [])),
           (''status'', PStr ''queued''),
           (''progress'', PInt 0) ])"

definition generate_assets ::
  "'o lax \<Rightarrow> (string \<Rightarrow> 'o obj \<Rightarrow> 's \<Rightarrow> 'o pyval raising \<times> 's) \<Rightarrow> 'o GenerateRequest \<Rightarrow> 's
     \<Rightarrow> (exn + 'o pydict) \<times> 's"
where
  "generate_assets lx create_document req s =
     (case generate_job lx req of
        Inl e \<Rightarrow> (Inl e, s)
      | Inr job \<Rightarrow>
          (case create_document ''job'' job s of
             (Inl e, s') \<Rightarrow> (Inl (Exception e), s')
           | (Inr job_id, s') \<Rightarrow> (Inr [(''job_id'', job_id), (''status'', PStr ''queued'')], s')))"

section \<open>A store and a validator to run the handlers on\<close>

text \<open>
  The concrete inputs of the examples below: pydantic with no conversion at all, a store
  kept in memory (a list of the inserted objects with their collections, the identifier
  of an insert a fresh string), a store that only reads, \<^verbatim>\<open>str\<close> on an identifier kept as its
  hex text, three behaviours of \<^verbatim>\<open>list_collection_names\<close> and two environments.
\<close>

definition strict :: "'o lax" where
  "strict = \<lparr>lax_str = (\<lambda>_. None), lax_int = (\<lambda>_. None), lax_bool = (\<lambda>_. None)\<rparr>"

definition memory_create_document ::
  "string \<Rightarrow> 'o obj \<Rightarrow> (string \<times> 'o obj) list \<Rightarrow> 'o pyval raising \<times> (string \<times> 'o obj) list"
where
  "memory_create_document name ob s =
     (Inr (PStr (replicate (Suc (length s)) (CHR ''i''))), s @ [(name, ob)])"

definition memory_get_documents :: "string \<Rightarrow> 'o pydict list \<Rightarrow> 'o pydict list raising" where
  "memory_get_documents name s = Inr s"

definition hex_id :: "string pyval \<Rightarrow> string" where
  "hex_id v = (case v of POpaque h \<Rightarrow> h | _ \<Rightarrow> [])"

definition twelve_collections :: "unit \<Rightarrow> string list raising" where
  "twelve_collections d =
     Inr [''c01'', ''c02'', ''c03'', ''c04'', ''c05'', ''c06'', ''c07'', ''c08'', ''c09'', ''c10'',
          ''c11'', ''c12'']"

definition two_collections :: "unit \<Rightarrow> string list raising" where
  "two_collections d = Inr [''job'', ''model'']"

definition timed_out :: "unit \<Rightarrow> string list raising" where
  "timed_out d = Inl ''timed out''"

definition env_alpha :: "string \<Rightarrow> string option" where
  "env_alpha = [''DATABASE_URL'' \<mapsto> ''mongodb://alpha'', ''DATABASE_NAME'' \<mapsto> ''alpha'']"

definition env_beta :: "string \<Rightarrow> string option" where
  "env_beta = [''DATABASE_URL'' \<mapsto> ''mongodb://alpha'', ''DATABASE_NAME'' \<mapsto> ''beta'']"

section \<open>Properties\<close>

subsection \<open>Validation\<close>

lemma sequence_map_Some: "sequence (map Some xs) = Some xs"
  by (induction xs) simp_all

lemma validate_dict_any: "validate_type lx (TDict TAny) (PDict kvs) = Some (PDict kvs)"
  by (simp add: sequence_map_Some)

lemma validate_optional_str: "validate_type lx (TOptional TStr) (optional_str x) = Some (optional_str x)"
  by (cases x) (simp_all add: optional_str_def)

lemma generate_job_eq:
  "generate_job lx req =
     Inr [ (''type'', PStr (if task req \<in> set [''face'', ''fullbody'', ''angles360'', ''expression'',
                                      ''background'', ''dress''] then task req else ''dataset'')),
           (''model_id'', optional_str (model_id req)),
           (''pipeline_id'', optional_str (pipeline_id req)),
           (''params'', PDict (params req)),
           (''status'', PStr ''queued''),
           (''progress'', PInt 0),
           (''output'', PList []) ]"
  unfolding generate_job_def model_validate_def Job_def
  by (simp add: field_value_def validate_dict_any validate_optional_str del: validate_type.simps(8) validate_type.simps(6))

lemma validate_fields_error: "validate_fields lx shape kvs = Inl e \<Longrightarrow> e = ValidationError"
  by (induction shape arbitrary: e) (auto split: option.splits sum.splits)

lemma validate_fields_names: "validate_fields lx shape kvs = Inr ob \<Longrightarrow> map fst ob = map fname shape"
  by (induction shape arbitrary: ob) (auto split: option.splits sum.splits)

lemma validate_fields_missing:
  "f \<in> set shape \<Longrightarrow> field_value lx f kvs = None \<Longrightarrow> validate_fields lx shape kvs = Inl ValidationError"
  by (induction shape) (auto split: option.splits sum.splits dest: validate_fields_error)

lemma validate_fields_lookup:
  "validate_fields lx shape kvs = Inr ob \<Longrightarrow> f \<in> set shape \<Longrightarrow> distinct (map fname shape)
     \<Longrightarrow> map_of ob (fname f) = field_value lx f kvs"
proof (induction shape arbitrary: ob)
  case Nil
  then show ?case by simp
next
  case (Cons g gs)
  from Cons.prems(1) obtain v rest where
    v: "field_value lx g kvs = Some v" and rest: "validate_fields lx gs kvs = Inr rest"
    and ob: "ob = (fname g, v) # rest"
    by (auto split: option.splits sum.splits)
  show ?case
  proof (cases "f = g")
    case True
    then show ?thesis using v ob by simp
  next
    case False
    then have "f \<in> set gs" using Cons.prems(2) by simp
    moreover have "fname f \<noteq> fname g"
    proof -
      have "fname f \<in> fname ` set gs" using \<open>f \<in> set gs\<close> by (rule imageI)
      moreover have "fname g \<notin> fname ` set gs" using Cons.prems(3) by simp
      ultimately show ?thesis by auto
    qed
    ultimately show ?thesis using Cons.IH[OF rest] Cons.prems(3) ob by simp
  qed
qed


lemma validate_literal_None:
  "v \<notin> PStr ` set allowed \<Longrightarrow> validate_type lx (TLiteral allowed) v = None"
  by (cases v) auto

lemma validate_literal_Some:
  "validate_type lx (TLiteral allowed) v = Some w \<Longrightarrow> w = v \<and> v \<in> PStr ` set allowed"
  by (cases v) (auto split: if_splits)

lemma type_field_in_Job:
  "Field ''type'' (TLiteral [''face'', ''fullbody'', ''angles360'', ''expression'', ''background'',
       ''dress'', ''dataset'']) Required \<in> set Job"
  by (simp add: Job_def)

lemma status_field_in_Job:
  "Field ''status'' (TLiteral [''queued'', ''running'', ''succeeded'', ''failed''])
     (Default (PStr ''queued'')) \<in> set Job"
  by (simp add: Job_def)

lemma validate_fields_present:
  assumes "validate_fields lx shape kvs = Inr ob" and "f \<in> set shape"
    and "distinct (map fname shape)"
  shows "\<exists>v. field_value lx f kvs = Some v \<and> map_of ob (fname f) = Some v"
proof (cases "field_value lx f kvs")
  case None
  with assms(1,2) show ?thesis using validate_fields_missing[of f shape lx kvs] by simp
next
  case (Some v)
  with validate_fields_lookup[OF assms] show ?thesis by simp
qed

subsection \<open>POST /generate\<close>

lemma distinct_Job: "distinct (map fname (Job :: 'o shape))"
  by (simp add: Job_def)

lemma generate_assets_eq:
  "generate_job lx req = Inr job \<Longrightarrow>
   generate_assets lx cd req s =
     (case cd ''job'' job s of
        (Inl e, s') \<Rightarrow> (Inl (Exception e), s')
      | (Inr job_id, s') \<Rightarrow> (Inr [(''job_id'', job_id), (''status'', PStr ''queued'')], s'))"
  by (simp add: generate_assets_def)

text \<open>
  C1: the job that \<^verbatim>\<open>POST /generate\<close> builds and hands to \<open>create_document\<close> has the
  request's task as its type when the task is one of face, fullbody, angles360,
  expression, background, dress, and the type \<^verbatim>\<open>dataset\<close> for every other task string.
  The construction of the job never fails.
\<close>

theorem generate_assets_job_type:
  "\<exists>job. generate_job lx req = Inr job
     \<and> generate_assets lx create_document req s =
           (case create_document ''job'' job s of
              (Inl e, s') \<Rightarrow> (Inl (Exception e), s')
            | (Inr job_id, s') \<Rightarrow> (Inr [(''job_id'', job_id), (''status'', PStr ''queued'')], s'))
     \<and> (task req \<in> {''face'', ''fullbody'', ''angles360'', ''expression'', ''background'', ''dress''}
          \<longrightarrow> getattr job ''type'' = Inr (PStr (task req)))
     \<and> (task req \<notin> {''face'', ''fullbody'', ''angles360'', ''expression'', ''background'', ''dress''}
          \<longrightarrow> getattr job ''type'' = Inr (PStr ''dataset''))"
proof -
  obtain job where job: "generate_job lx req = Inr job"
    and ty: "map_of job ''type'' = Some (PStr (if task req \<in> set [''face'', ''fullbody'', ''angles360'', ''expression'',
                                      ''background'', ''dress''] then task req else ''dataset''))"
    using generate_job_eq[of lx req] by simp
  have "generate_assets lx create_document req s =
           (case create_document ''job'' job s of
              (Inl e, s') \<Rightarrow> (Inl (Exception e), s')
            | (Inr job_id, s') \<Rightarrow> (Inr [(''job_id'', job_id), (''status'', PStr ''queued'')], s'))"
    by (rule generate_assets_eq[OF job])
  moreover have "task req \<in> {''face'', ''fullbody'', ''angles360'', ''expression'', ''background'', ''dress''}
          \<longrightarrow> getattr job ''type'' = Inr (PStr (task req))"
    using ty by (simp add: getattr_def)
  moreover have "task req \<notin> {''face'', ''fullbody'', ''angles360'', ''expression'', ''background'', ''dress''}
          \<longrightarrow> getattr job ''type'' = Inr (PStr ''dataset'')"
    using ty by (simp add: getattr_def)
  ultimately show ?thesis using job by blast
qed

theorem generate_assets_job_type_witness:
  "(\<exists>job. generate_job (strict :: unit lax)
            \<lparr>model_id = None, pipeline_id = None, task = ''face'', promptless = True, params = []\<rparr> = Inr job
          \<and> getattr job ''type'' = Inr (PStr ''face''))
   \<and> (\<exists>job. generate_job (strict :: unit lax)
            \<lparr>model_id = None, pipeline_id = None, task = ''sparkle'', promptless = True, params = []\<rparr> = Inr job
          \<and> getattr job ''type'' = Inr (PStr ''dataset''))"
  using generate_assets_job_type[of "strict :: unit lax"
          "\<lparr>model_id = None, pipeline_id = None, task = ''face'', promptless = True, params = []\<rparr>"
          memory_create_document "[]"]
        generate_assets_job_type[of "strict :: unit lax"
          "\<lparr>model_id = None, pipeline_id = None, task = ''sparkle'', promptless = True, params = []\<rparr>"
          memory_create_document "[]"]
  by simp blast

text \<open>
  C2: whatever the request holds, the job that \<^verbatim>\<open>POST /generate\<close> builds has status
  \<^verbatim>\<open>queued\<close> and progress 0, and once \<open>create_document\<close> has returned the new job's
  identifier the handler answers with that identifier under \<^verbatim>\<open>job_id\<close> and the status
  \<^verbatim>\<open>queued\<close>.
\<close>

theorem generate_assets_queued:
  "\<exists>job. generate_job lx req = Inr job
     \<and> getattr job ''status'' = Inr (PStr ''queued'')
     \<and> getattr job ''progress'' = Inr (PInt 0)
     \<and> (\<forall>job_id s'. create_document ''job'' job s = (Inr job_id, s') \<longrightarrow>
           generate_assets lx create_document req s =
             (Inr [(''job_id'', job_id), (''status'', PStr ''queued'')], s'))"
proof -
  obtain job where job: "generate_job lx req = Inr job"
    and st: "map_of job ''status'' = Some (PStr ''queued'')"
    and pr: "map_of job ''progress'' = Some (PInt 0)"
    using generate_job_eq[of lx req] by simp
  have "\<forall>job_id s'. create_document ''job'' job s = (Inr job_id, s') \<longrightarrow>
           generate_assets lx create_document req s =
             (Inr [(''job_id'', job_id), (''status'', PStr ''queued'')], s')"
    by (simp add: generate_assets_eq[OF job])
  then show ?thesis using job st pr by (auto simp: getattr_def)
qed

theorem generate_assets_queued_witness:
  "\<exists>job. generate_job (strict :: unit lax)
            \<lparr>model_id = Some ''m1'', pipeline_id = None, task = ''sparkle'', promptless = False,
             params = [(''seed'', PInt 7)]\<rparr> = Inr job
     \<and> getattr job ''status'' = Inr (PStr ''queued'')
     \<and> getattr job ''progress'' = Inr (PInt 0)
     \<and> memory_create_document ''job'' job [] = (Inr (PStr ''i''), [(''job'', job)])
     \<and> generate_assets strict memory_create_document
            \<lparr>model_id = Some ''m1'', pipeline_id = None, task = ''sparkle'', promptless = False,
             params = [(''seed'', PInt 7)]\<rparr> []
         = (Inr [(''job_id'', PStr ''i''), (''status'', PStr ''queued'')], [(''job'', job)])"
proof -
  let ?req = "\<lparr>model_id = Some ''m1'', pipeline_id = None, task = ''sparkle'', promptless = False,
             params = [(''seed'', PInt 7 :: unit pyval)]\<rparr>"
  obtain job where job: "generate_job strict ?req = Inr job"
    and st: "getattr job ''status'' = Inr (PStr ''queued'')"
    and pr: "getattr job ''progress'' = Inr (PInt 0)"
    and run: "\<And>job_id s'. memory_create_document ''job'' job [] = (Inr job_id, s') \<Longrightarrow>
           generate_assets strict memory_create_document ?req [] =
             (Inr [(''job_id'', job_id), (''status'', PStr ''queued'')], s')"
    using generate_assets_queued[of strict ?req memory_create_document "[]"] by blast
  have ins: "memory_create_document ''job'' job [] = (Inr (PStr ''i''), [(''job'', job)])"
    by (simp add: memory_create_document_def)
  from run[OF ins] ins job st pr show ?thesis by blast
qed

text \<open>
  C10: \<^verbatim>\<open>promptless\<close> has no effect. Two requests that agree on every field but
  \<^verbatim>\<open>promptless\<close> build the same job and get the same answer and the same store.
\<close>

theorem generate_assets_ignores_promptless:
  assumes "model_id r1 = model_id r2" and "pipeline_id r1 = pipeline_id r2"
    and "task r1 = task r2" and "params r1 = params r2"
  shows "generate_job lx r1 = generate_job lx r2
       \<and> generate_assets lx cd r1 s = generate_assets lx cd r2 s"
  using assms by (simp add: generate_job_def generate_assets_def)

theorem generate_assets_ignores_promptless_witness:
  "generate_assets (strict :: unit lax) memory_create_document
      \<lparr>model_id = None, pipeline_id = Some ''p1'', task = ''dress'', promptless = True, params = []\<rparr> []
   = generate_assets strict memory_create_document
      \<lparr>model_id = None, pipeline_id = Some ''p1'', task = ''dress'', promptless = False, params = []\<rparr> []"
  using generate_assets_ignores_promptless[of
      "\<lparr>model_id = None, pipeline_id = Some ''p1'', task = ''dress'', promptless = True, params = []\<rparr>"
      "\<lparr>model_id = None, pipeline_id = Some ''p1'', task = ''dress'', promptless = False, params = []\<rparr>"
      "strict :: unit lax" memory_create_document "[]"]
  by simp

subsection \<open>POST /jobs\<close>

text \<open>
  C3: a \<^verbatim>\<open>POST /jobs\<close> body that has no \<^verbatim>\<open>type\<close>, or a \<^verbatim>\<open>type\<close> outside face,
  fullbody, angles360, expression, background, dress, dataset, or a \<^verbatim>\<open>status\<close> outside
  queued, running, succeeded, failed, is answered with the client error, and the store
  is the one the request found: \<open>create_document\<close>, whatever it does, is not called.
\<close>

theorem post_jobs_rejects:
  assumes "body = PDict kvs"
    and "map_of kvs ''type'' = None
       \<or> (\<exists>v. map_of kvs ''type'' = Some v
              \<and> v \<notin> PStr ` {''face'', ''fullbody'', ''angles360'', ''expression'', ''background'',
                              ''dress'', ''dataset''})
       \<or> (\<exists>v. map_of kvs ''status'' = Some v
              \<and> v \<notin> PStr ` {''queued'', ''running'', ''succeeded'', ''failed''})"
  shows "post_jobs lx create_document body s = (Unprocessable_Entity, s)"
proof -
  let ?ty = "Field ''type'' (TLiteral [''face'', ''fullbody'', ''angles360'', ''expression'',
       ''background'', ''dress'', ''dataset'']) Required :: 'a field_info"
  let ?st = "Field ''status'' (TLiteral [''queued'', ''running'', ''succeeded'', ''failed''])
     (Default (PStr ''queued'')) :: 'a field_info"
  have "field_value lx ?ty kvs = None \<or> field_value lx ?st kvs = None"
    using assms(2)
  proof (elim disjE exE conjE)
    assume "map_of kvs ''type'' = None"
    then show ?thesis by (simp add: field_value_def)
  next
    fix v
    assume "map_of kvs ''type'' = Some v"
      and "v \<notin> PStr ` {''face'', ''fullbody'', ''angles360'', ''expression'', ''background'',
                              ''dress'', ''dataset''}"
    then show ?thesis
      using validate_literal_None[of v "[''face'', ''fullbody'', ''angles360'', ''expression'',
        ''background'', ''dress'', ''dataset'']" lx]
      by (simp add: field_value_def)
  next
    fix v
    assume "map_of kvs ''status'' = Some v"
      and "v \<notin> PStr ` {''queued'', ''running'', ''succeeded'', ''failed''}"
    then show ?thesis
      using validate_literal_None[of v "[''queued'', ''running'', ''succeeded'', ''failed'']" lx]
      by (simp add: field_value_def)
  qed
  then have "validate_fields lx Job kvs = Inl ValidationError"
    using validate_fields_missing[OF type_field_in_Job] validate_fields_missing[OF status_field_in_Job]
    by blast
  then show ?thesis
    using assms(1) by (simp add: post_jobs_def model_validate_def)
qed

theorem post_jobs_rejects_witness:
  "post_jobs (strict :: unit lax) memory_create_document (PDict [(''status'', PStr ''running'')]) []
     = (Unprocessable_Entity, [])
   \<and> post_jobs (strict :: unit lax) memory_create_document (PDict [(''type'', PStr ''sparkle'')]) []
     = (Unprocessable_Entity, [])
   \<and> post_jobs (strict :: unit lax) memory_create_document
        (PDict [(''type'', PStr ''face''), (''status'', PStr ''done'')]) []
     = (Unprocessable_Entity, [])"
proof (intro conjI)
  have "map_of [(''status'', PStr ''running'' :: unit pyval)] ''type'' = None"
    by simp
  then show "post_jobs (strict :: unit lax) memory_create_document
      (PDict [(''status'', PStr ''running'')]) [] = (Unprocessable_Entity, [])"
    using post_jobs_rejects[where body = "PDict [(''status'', PStr ''running'' :: unit pyval)]"
        and kvs = "[(''status'', PStr ''running'')]" and lx = strict
        and create_document = memory_create_document and s = "[]"]
    by blast
next
  have "map_of [(''type'', PStr ''sparkle'' :: unit pyval)] ''type'' = Some (PStr ''sparkle'')
      \<and> (PStr ''sparkle'' :: unit pyval)
          \<notin> PStr ` {''face'', ''fullbody'', ''angles360'', ''expression'', ''background'',
                      ''dress'', ''dataset''}"
    by simp
  then show "post_jobs (strict :: unit lax) memory_create_document
      (PDict [(''type'', PStr ''sparkle'')]) [] = (Unprocessable_Entity, [])"
    using post_jobs_rejects[where body = "PDict [(''type'', PStr ''sparkle'' :: unit pyval)]"
        and kvs = "[(''type'', PStr ''sparkle'')]" and lx = strict
        and create_document = memory_create_document and s = "[]"]
    by blast
next
  have "map_of [(''type'', PStr ''face'' :: unit pyval), (''status'', PStr ''done'')] ''status''
        = Some (PStr ''done'')
      \<and> (PStr ''done'' :: unit pyval)
          \<notin> PStr ` {''queued'', ''running'', ''succeeded'', ''failed''}"
    by simp
  then show "post_jobs (strict :: unit lax) memory_create_document
      (PDict [(''type'', PStr ''face''), (''status'', PStr ''done'')]) [] = (Unprocessable_Entity, [])"
    using post_jobs_rejects[where
          body = "PDict [(''type'', PStr ''face'' :: unit pyval), (''status'', PStr ''done'')]"
        and kvs = "[(''type'', PStr ''face''), (''status'', PStr ''done'')]" and lx = strict
        and create_document = memory_create_document and s = "[]"]
    by blast
qed

text \<open>
  C6: for a body that validates, once \<open>create_document\<close> has returned the identifier of
  the inserted record, \<^verbatim>\<open>POST /jobs\<close> answers with that identifier under \<^verbatim>\<open>id\<close> and
  with the status of the validated payload under \<^verbatim>\<open>status\<close>: one of the four status
  names, and the very value the body supplied when it supplied one.
\<close>

theorem post_jobs_echoes_status:
  assumes "model_validate lx Job body = Inr payload"
    and "create_document ''job'' payload s = (Inr inserted_id, s')"
  shows "\<exists>st. getattr payload ''status'' = Inr st
          \<and> post_jobs lx create_document body s = (OK [(''id'', inserted_id), (''status'', st)], s')
          \<and> st \<in> PStr ` {''queued'', ''running'', ''succeeded'', ''failed''}
          \<and> (\<forall>kvs v. body = PDict kvs \<and> map_of kvs ''status'' = Some v \<longrightarrow> st = v)"
proof -
  let ?st = "Field ''status'' (TLiteral [''queued'', ''running'', ''succeeded'', ''failed''])
     (Default (PStr ''queued'')) :: 'a field_info"
  from assms(1) obtain kvs where body: "body = PDict kvs"
    and ok: "validate_fields lx Job kvs = Inr payload"
    by (cases body) (simp_all add: model_validate_def)
  from validate_fields_present[OF ok status_field_in_Job distinct_Job]
  obtain st where fv: "field_value lx ?st kvs = Some st"
    and at: "map_of payload ''status'' = Some st"
    by auto
  have lit: "st \<in> PStr ` {''queued'', ''running'', ''succeeded'', ''failed''}"
    using fv validate_literal_Some[of lx "[''queued'', ''running'', ''succeeded'', ''failed'']" _ st]
    by (auto simp: field_value_def split: option.splits)
  have echo: "\<forall>kvs' v. body = PDict kvs' \<and> map_of kvs' ''status'' = Some v \<longrightarrow> st = v"
    using fv body validate_literal_Some[of lx "[''queued'', ''running'', ''succeeded'', ''failed'']" _ st]
    by (auto simp: field_value_def)
  have "post_jobs lx create_document body s = (OK [(''id'', inserted_id), (''status'', st)], s')"
    using assms at by (simp add: post_jobs_def create_job_def respond_def getattr_def)
  then show ?thesis using at lit echo by (auto simp: getattr_def)
qed

theorem post_jobs_echoes_status_witness:
  "model_validate (strict :: unit lax) Job
      (PDict [(''type'', PStr ''face''), (''status'', PStr ''running''), (''progress'', PInt 40)])
     = Inr [(''type'', PStr ''face''), (''model_id'', PNone), (''pipeline_id'', PNone),
            (''params'', PDict []), (''status'', PStr ''running''), (''progress'', PInt 40),
            (''output'', PList [])]
   \<and> post_jobs (strict :: unit lax) memory_create_document
      (PDict [(''type'', PStr ''face''), (''status'', PStr ''running''), (''progress'', PInt 40)]) []
     = (OK [(''id'', PStr ''i''), (''status'', PStr ''running'')],
        [(''job'', [(''type'', PStr ''face''), (''model_id'', PNone), (''pipeline_id'', PNone),
            (''params'', PDict []), (''status'', PStr ''running''), (''progress'', PInt 40),
            (''output'', PList [])])])"
proof -
  let ?body = "PDict [(''type'', PStr ''face''), (''status'', PStr ''running''),
                      (''progress'', PInt 40)] :: unit pyval"
  let ?payload = "[(''type'', PStr ''face''), (''model_id'', PNone), (''pipeline_id'', PNone),
            (''params'', PDict []), (''status'', PStr ''running''), (''progress'', PInt 40),
            (''output'', PList [])] :: unit obj"
  have v: "model_validate strict Job ?body = Inr ?payload"
    by (simp add: model_validate_def Job_def field_value_def)
  have ins: "memory_create_document ''job'' ?payload [] = (Inr (PStr ''i''), [(''job'', ?payload)])"
    by (simp add: memory_create_document_def)
  from post_jobs_echoes_status[where lx = strict and body = ?body and payload = ?payload
        and create_document = memory_create_document and s = "[]" and inserted_id = "PStr ''i''"
        and s' = "[(''job'', ?payload)]", OF v ins]
  obtain st where
    "post_jobs strict memory_create_document ?body [] = (OK [(''id'', PStr ''i''), (''status'', st)], [(''job'', ?payload)])"
    and "\<forall>kvs v. ?body = PDict kvs \<and> map_of kvs ''status'' = Some v \<longrightarrow> st = v"
    by blast
  moreover from this(2) have "st = PStr ''running''" by simp
  ultimately show ?thesis using v by simp
qed

lemma validate_fields_default:
  assumes "validate_fields lx shape kvs = Inr ob" and "Field n t (Default d) \<in> set shape"
    and "distinct (map fname shape)" and "map_of kvs n = None"
  shows "map_of ob n = Some d"
  using validate_fields_lookup[OF assms(1,2,3)] assms(4) by (simp add: field_value_def)

lemma Job_only_type:
  assumes "t \<in> {''face'', ''fullbody'', ''angles360'', ''expression'', ''background'', ''dress'',
                 ''dataset''}"
  shows "model_validate lx Job (PDict [(''type'', PStr t)]) =
           Inr [(''type'', PStr t), (''model_id'', PNone), (''pipeline_id'', PNone),
                (''params'', PDict []), (''status'', PStr ''queued''), (''progress'', PInt 0),
                (''output'', PList [])]"
proof -
  have "validate_type lx (TLiteral [''face'', ''fullbody'', ''angles360'', ''expression'',
          ''background'', ''dress'', ''dataset'']) (PStr t) = Some (PStr t)"
    using assms by simp
  then show ?thesis
    by (simp add: model_validate_def Job_def field_value_def del: validate_type.simps)
qed

text \<open>
  C8: in a validated Job every optional field the payload omits has its default: status
  \<^verbatim>\<open>queued\<close>, progress 0, params the empty dict, output the empty list, model_id and
  pipeline_id \<^verbatim>\<open>None\<close>. In particular a \<^verbatim>\<open>POST /jobs\<close> body that holds only a valid type
  hands \<open>create_document\<close> the record with status \<^verbatim>\<open>queued\<close> and progress 0.
\<close>

theorem Job_defaults:
  "(model_validate lx Job (PDict kvs) = Inr job \<longrightarrow>
       (map_of kvs ''status'' = None \<longrightarrow> getattr job ''status'' = Inr (PStr ''queued''))
     \<and> (map_of kvs ''progress'' = None \<longrightarrow> getattr job ''progress'' = Inr (PInt 0))
     \<and> (map_of kvs ''params'' = None \<longrightarrow> getattr job ''params'' = Inr (PDict []))
     \<and> (map_of kvs ''output'' = None \<longrightarrow> getattr job ''output'' = Inr (PList []))
     \<and> (map_of kvs ''model_id'' = None \<longrightarrow> getattr job ''model_id'' = Inr PNone)
     \<and> (map_of kvs ''pipeline_id'' = None \<longrightarrow> getattr job ''pipeline_id'' = Inr PNone))
   \<and> (t \<in> {''face'', ''fullbody'', ''angles360'', ''expression'', ''background'', ''dress'',
             ''dataset''} \<longrightarrow>
       post_jobs lx create_document (PDict [(''type'', PStr t)]) s =
         respond (create_job create_document
           [(''type'', PStr t), (''model_id'', PNone), (''pipeline_id'', PNone),
            (''params'', PDict []), (''status'', PStr ''queued''), (''progress'', PInt 0),
            (''output'', PList [])] s))"
proof (intro conjI impI)
  assume "t \<in> {''face'', ''fullbody'', ''angles360'', ''expression'', ''background'', ''dress'',
             ''dataset''}"
  from Job_only_type[OF this, of lx]
  show "post_jobs lx create_document (PDict [(''type'', PStr t)]) s =
         respond (create_job create_document
           [(''type'', PStr t), (''model_id'', PNone), (''pipeline_id'', PNone),
            (''params'', PDict []), (''status'', PStr ''queued''), (''progress'', PInt 0),
            (''output'', PList [])] s)"
    by (simp add: post_jobs_def)
next
  assume "model_validate lx Job (PDict kvs) = Inr job"
  then have ok: "validate_fields lx Job kvs = Inr job"
    by (simp add: model_validate_def)
  note dflt = validate_fields_default[OF ok _ distinct_Job]
  {
    assume "map_of kvs ''status'' = None"
    from dflt[OF status_field_in_Job this]
    show "getattr job ''status'' = Inr (PStr ''queued'')" by (simp add: getattr_def)
  next
    assume "map_of kvs ''progress'' = None"
    moreover have "Field ''progress'' TInt (Default (PInt 0)) \<in> set (Job :: 'a shape)"
      by (simp add: Job_def)
    ultimately show "getattr job ''progress'' = Inr (PInt 0)"
      using dflt by (simp add: getattr_def)
  next
    assume "map_of kvs ''params'' = None"
    moreover have "Field ''params'' (TDict TAny) (Default (PDict [])) \<in> set (Job :: 'a shape)"
      by (simp add: Job_def)
    ultimately show "getattr job ''params'' = Inr (PDict [])"
      using dflt by (simp add: getattr_def)
  next
    assume "map_of kvs ''output'' = None"
    moreover have "Field ''output'' (TList (TDict TAny)) (Default (PList [])) \<in> set (Job :: 'a shape)"
      by (simp add: Job_def)
    ultimately show "getattr job ''output'' = Inr (PList [])"
      using dflt by (simp add: getattr_def)
  next
    assume "map_of kvs ''model_id'' = None"
    moreover have "Field ''model_id'' (TOptional TStr) (Default PNone) \<in> set (Job :: 'a shape)"
      by (simp add: Job_def)
    ultimately show "getattr job ''model_id'' = Inr PNone"
      using dflt by (simp add: getattr_def)
  next
    assume "map_of kvs ''pipeline_id'' = None"
    moreover have "Field ''pipeline_id'' (TOptional TStr) (Default PNone) \<in> set (Job :: 'a shape)"
      by (simp add: Job_def)
    ultimately show "getattr job ''pipeline_id'' = Inr PNone"
      using dflt by (simp add: getattr_def)
  }
qed

theorem Job_defaults_witness:
  "model_validate (strict :: unit lax) Job (PDict [(''type'', PStr ''face'')]) =
     Inr [(''type'', PStr ''face''), (''model_id'', PNone), (''pipeline_id'', PNone),
          (''params'', PDict []), (''status'', PStr ''queued''), (''progress'', PInt 0),
          (''output'', PList [])]
   \<and> getattr [(''type'', PStr ''face'' :: unit pyval), (''model_id'', PNone), (''pipeline_id'', PNone),
          (''params'', PDict []), (''status'', PStr ''queued''), (''progress'', PInt 0),
          (''output'', PList [])] ''status'' = Inr (PStr ''queued'')
   \<and> post_jobs (strict :: unit lax) memory_create_document (PDict [(''type'', PStr ''face'')]) []
       = (OK [(''id'', PStr ''i''), (''status'', PStr ''queued'')],
          [(''job'', [(''type'', PStr ''face''), (''model_id'', PNone), (''pipeline_id'', PNone),
             (''params'', PDict []), (''status'', PStr ''queued''), (''progress'', PInt 0),
             (''output'', PList [])])])"
proof -
  let ?job = "[(''type'', PStr ''face'' :: unit pyval), (''model_id'', PNone), (''pipeline_id'', PNone),
          (''params'', PDict []), (''status'', PStr ''queued''), (''progress'', PInt 0),
          (''output'', PList [])]"
  have v: "model_validate (strict :: unit lax) Job (PDict [(''type'', PStr ''face'')]) = Inr ?job"
    by (simp add: model_validate_def Job_def field_value_def)
  have none: "map_of [(''type'', PStr ''face'' :: unit pyval)] ''status'' = None" by simp
  have mem: "''face'' \<in> {''face'', ''fullbody'', ''angles360'', ''expression'', ''background'',
      ''dress'', ''dataset''}" by simp
  note th = Job_defaults[where lx = "strict :: unit lax" and kvs = "[(''type'', PStr ''face'')]"
      and job = ?job and t = "''face''" and create_document = memory_create_document and s = "[]"]
  from th v none have st: "getattr ?job ''status'' = Inr (PStr ''queued'')" by blast
  from th mem have "post_jobs (strict :: unit lax) memory_create_document
      (PDict [(''type'', PStr ''face'')]) [] = respond (create_job memory_create_document ?job [])"
    by blast
  then have "post_jobs (strict :: unit lax) memory_create_document
      (PDict [(''type'', PStr ''face'')]) [] =
       (OK [(''id'', PStr ''i''), (''status'', PStr ''queued'')], [(''job'', ?job)])"
    by (simp add: respond_def create_job_def memory_create_document_def getattr_def)
  with v st show ?thesis by blast
qed

subsection \<open>The GET collection endpoints\<close>

lemma expose_id_no_raw: "''_id'' \<notin> fst ` set (expose_id str d)"
proof (cases "map_of d ''_id''")
  case None
  then have "expose_id str d = d" by (simp add: expose_id_def)
  moreover have "''_id'' \<notin> fst ` set d" using None by (simp add: map_of_eq_None_iff)
  ultimately show ?thesis by simp
next
  case (Some raw)
  have "''_id'' \<notin> fst ` set (AList.delete ''_id'' d)"
    by (rule delete_notin_dom)
  then show ?thesis using Some by (simp add: expose_id_def dom_update)
qed

lemma expose_id_public:
  "map_of d ''_id'' = Some raw \<Longrightarrow> map_of (expose_id str d) ''id'' = Some (PStr (str raw))"
  by (simp add: expose_id_def update_conv')

lemma list_collection_items:
  "get_documents name s = Inr docs \<Longrightarrow>
   list_collection name get_documents str s =
     Inr [(''items'', PList (map PDict (map (expose_id str) docs)))]"
  by (simp add: list_collection_def)

text \<open>
  C4: for \<^verbatim>\<open>GET /models\<close>, \<^verbatim>\<open>GET /pipelines\<close> and \<^verbatim>\<open>GET /jobs\<close> alike, the answer
  holds one record per document the store returned, in the same order; no record has
  the key \<^verbatim>\<open>_id\<close>, and the record of a document that carries the store's raw identifier
  has \<^verbatim>\<open>id\<close> equal to \<^verbatim>\<open>str\<close> of that identifier.
\<close>

theorem list_endpoints_expose_id:
  assumes "(handler, name) \<in> {(list_models, ''model''), (list_pipelines, ''pipeline''),
                               (list_jobs, ''job'')}"
    and "get_documents name s = Inr docs"
  shows "\<exists>items. handler get_documents str s = Inr [(''items'', PList (map PDict items))]
          \<and> length items = length docs
          \<and> (\<forall>i<length docs.
                ''_id'' \<notin> fst ` set (items ! i)
              \<and> (\<forall>raw. map_of (docs ! i) ''_id'' = Some raw
                    \<longrightarrow> map_of (items ! i) ''id'' = Some (PStr (str raw))))"
proof -
  have "handler = list_collection name"
    using assms(1) by (auto simp: list_models_def list_pipelines_def list_jobs_def)
  then have "handler get_documents str s =
      Inr [(''items'', PList (map PDict (map (expose_id str) docs)))]"
    using list_collection_items[where get_documents = get_documents and name = name and s = s
        and docs = docs and str = str] assms(2) by simp
  moreover have "\<forall>i<length docs.
        ''_id'' \<notin> fst ` set (map (expose_id str) docs ! i)
      \<and> (\<forall>raw. map_of (docs ! i) ''_id'' = Some raw
            \<longrightarrow> map_of (map (expose_id str) docs ! i) ''id'' = Some (PStr (str raw)))"
    using expose_id_no_raw[of str] expose_id_public[of _ _ str] by simp
  ultimately show ?thesis
    by (intro exI[of _ "map (expose_id str) docs"]) simp
qed

theorem list_endpoints_expose_id_witness:
  "list_jobs memory_get_documents hex_id
      [[(''_id'', POpaque ''65a1''), (''type'', PStr ''face''), (''status'', PStr ''queued'')]]
   = Inr [(''items'',
           PList [PDict [(''type'', PStr ''face''), (''status'', PStr ''queued''),
                         (''id'', PStr ''65a1'')]])]"
proof -
  let ?doc = "[(''_id'', POpaque ''65a1''), (''type'', PStr ''face''), (''status'', PStr ''queued'')]"
  have h: "(list_jobs, ''job'') \<in> {(list_models, ''model''), (list_pipelines, ''pipeline''),
                               (list_jobs, ''job'')}"
    by simp
  have g: "memory_get_documents ''job'' [?doc] = Inr [?doc]"
    by (simp add: memory_get_documents_def)
  from list_endpoints_expose_id[where handler = list_jobs and name = "''job''"
      and get_documents = memory_get_documents and s = "[?doc]" and docs = "[?doc]"
      and str = hex_id] h g
  obtain items where "list_jobs memory_get_documents hex_id [?doc] =
      Inr [(''items'', PList (map PDict items))]"
    by blast
  then show ?thesis
    by (simp add: list_jobs_def list_collection_def memory_get_documents_def expose_id_def hex_id_def)
qed

subsection \<open>GET /schema\<close>

text \<open>
  C5: \<^verbatim>\<open>GET /schema\<close> always answers with exactly four descriptors, named model,
  pipeline, dataset and job in this order, and the fields of each are the names of the
  fields its shape declares, in declaration order; the four lists are written out.
\<close>

theorem get_schema_collections:
  "get_schema_route (lx :: 'o lax) =
     OK [(''collections'',
          PList
           [PDict [(''name'', PStr ''model''), (''fields'', PList (map PStr (map fname (Model :: 'o shape))))],
            PDict [(''name'', PStr ''pipeline''), (''fields'', PList (map PStr (map fname (Pipeline :: 'o shape))))],
            PDict [(''name'', PStr ''dataset''), (''fields'', PList (map PStr (map fname (Dataset :: 'o shape))))],
            PDict [(''name'', PStr ''job''), (''fields'', PList (map PStr (map fname (Job :: 'o shape))))]])]
   \<and> map fname (Model :: 'o shape) =
       [''name'', ''description'', ''identity_seed'', ''tags'', ''style_preset'', ''face_embeddings'',
        ''consistency_profile'']
   \<and> map fname (Pipeline :: 'o shape) = [''name'', ''version'', ''is_active'', ''nodes'', ''edges'']
   \<and> map fname (Dataset :: 'o shape) = [''model_id'', ''title'', ''status'', ''size'', ''items'']
   \<and> map fname (Job :: 'o shape) =
       [''type'', ''model_id'', ''pipeline_id'', ''params'', ''status'', ''progress'', ''output'']"
proof (intro conjI)
  have any: "\<And>kvs. validate_type lx (TDict TAny) (PDict kvs) = Some (PDict kvs)"
    by (rule validate_dict_any)
  show "get_schema_route (lx :: 'o lax) =
     OK [(''collections'',
          PList
           [PDict [(''name'', PStr ''model''), (''fields'', PList (map PStr (map fname (Model :: 'o shape))))],
            PDict [(''name'', PStr ''pipeline''), (''fields'', PList (map PStr (map fname (Pipeline :: 'o shape))))],
            PDict [(''name'', PStr ''dataset''), (''fields'', PList (map PStr (map fname (Dataset :: 'o shape))))],
            PDict [(''name'', PStr ''job''), (''fields'', PList (map PStr (map fname (Job :: 'o shape))))]])]"
    unfolding get_schema_route_def get_schema_def collection_entry_def properties_keys_def
      model_validate_def SchemaResponse_def
    by (simp add: field_value_def any del: validate_type.simps(8))
qed (simp_all add: Model_def Pipeline_def Dataset_def Job_def)

subsection \<open>GET /test\<close>

lemma test_database_uninitialized:
  "test_database None list_collection_names getenv =
     Inr (AList.update ''database'' (PStr (WARNING_SIGN @ '' Available but not initialized''))
            initial_response)"
  by (simp add: test_database_def try_except_def test_database_body_def)

lemma test_database_fault:
  "list_collection_names d = Inl e \<Longrightarrow>
   test_database (Some d) list_collection_names getenv =
     Inr [ (''backend'', PStr (CHECK_MARK @ '' Running'')),
           (''database'', PStr (WARNING_SIGN @ '' Connected but Error: '' @ str_slice_to 80 e)),
           (''database_url'',
            PStr (case getenv ''DATABASE_URL'' of
                    None \<Rightarrow> CROSS_MARK @ '' Not Set''
                  | Some v \<Rightarrow> if v \<noteq> [] then CHECK_MARK @ '' Set'' else CROSS_MARK @ '' Not Set'')),
           (''database_name'',
            PStr (case getenv ''DATABASE_NAME'' of
                    None \<Rightarrow> CROSS_MARK @ '' Not Set''
                  | Some v \<Rightarrow> if v \<noteq> [] then v else CROSS_MARK @ '' Not Set'')),
           (''connection_status'', PStr ''Connected''),
           (''collections'', PList []) ]"
  by (simp add: test_database_def try_except_def test_database_body_def list_collections_body_def
      list_collections_handler_def initial_response_def)

lemma test_database_healthy:
  "list_collection_names d = Inr names \<Longrightarrow>
   test_database (Some d) list_collection_names getenv =
     Inr [ (''backend'', PStr (CHECK_MARK @ '' Running'')),
           (''database'', PStr (CHECK_MARK @ '' Connected & Working'')),
           (''database_url'',
            PStr (case getenv ''DATABASE_URL'' of
                    None \<Rightarrow> CROSS_MARK @ '' Not Set''
                  | Some v \<Rightarrow> if v \<noteq> [] then CHECK_MARK @ '' Set'' else CROSS_MARK @ '' Not Set'')),
           (''database_name'',
            PStr (case getenv ''DATABASE_NAME'' of
                    None \<Rightarrow> CROSS_MARK @ '' Not Set''
                  | Some v \<Rightarrow> if v \<noteq> [] then v else CROSS_MARK @ '' Not Set'')),
           (''connection_status'', PStr ''Connected''),
           (''collections'', PList (map PStr (take 10 names))) ]"
  by (simp add: test_database_def try_except_def test_database_body_def list_collections_body_def
      list_collections_handler_def initial_response_def)

text \<open>
  C7: \<^verbatim>\<open>GET /test\<close> returns a status object of the same six keys whatever the store
  does; no exception leaves the handler. Without a store handle only the database
  string of the initial response changes. When \<^verbatim>\<open>list_collection_names\<close> raises, the
  response is the one of a healthy store with no collection but for the database string,
  which carries the first 80 characters of the error. When it returns, the response
  lists the first 10 names and never more.
\<close>

theorem test_database_never_raises:
  "\<exists>st url name conn names.
      test_database db list_collection_names getenv =
        Inr [ (''backend'', PStr (CHECK_MARK @ '' Running'') :: 'o pyval),
              (''database'', PStr st),
              (''database_url'', PStr url),
              (''database_name'', PStr name),
              (''connection_status'', PStr conn),
              (''collections'', PList (map PStr names)) ]
    \<and> length names \<le> 10
    \<and> (db = None \<longrightarrow>
          (test_database db list_collection_names getenv :: exn + 'o pydict) =
            Inr (AList.update ''database''
                   (PStr (WARNING_SIGN @ '' Available but not initialized'')) initial_response))
    \<and> (\<forall>d e. db = Some d \<and> list_collection_names d = Inl e \<longrightarrow>
          st = WARNING_SIGN @ '' Connected but Error: '' @ str_slice_to 80 e
        \<and> conn = ''Connected'' \<and> names = []
        \<and> (test_database db list_collection_names getenv :: exn + 'o pydict) =
            map_sum id (AList.update ''database'' (PStr st))
              (test_database db (\<lambda>_. Inr []) getenv))
    \<and> (\<forall>d found. db = Some d \<and> list_collection_names d = Inr found \<longrightarrow>
          st = CHECK_MARK @ '' Connected & Working''
        \<and> conn = ''Connected'' \<and> names = take 10 found)"
proof -
  define url where "url = (case getenv ''DATABASE_URL'' of
      None \<Rightarrow> CROSS_MARK @ '' Not Set''
    | Some v \<Rightarrow> if v \<noteq> [] then CHECK_MARK @ '' Set'' else CROSS_MARK @ '' Not Set'')"
  define name where "name = (case getenv ''DATABASE_NAME'' of
      None \<Rightarrow> CROSS_MARK @ '' Not Set''
    | Some v \<Rightarrow> if v \<noteq> [] then v else CROSS_MARK @ '' Not Set'')"
  let ?resp = "\<lambda>st url name conn names.
        [ (''backend'', PStr (CHECK_MARK @ '' Running'') :: 'o pyval),
          (''database'', PStr st),
          (''database_url'', PStr url),
          (''database_name'', PStr name),
          (''connection_status'', PStr conn),
          (''collections'', PList (map PStr names)) ]"
  show ?thesis
  proof (cases db)
    case None
    let ?st = "WARNING_SIGN @ '' Available but not initialized''"
    have eq: "test_database db list_collection_names getenv =
        Inr (AList.update ''database'' (PStr ?st) (initial_response :: 'o pydict))"
      using None by (simp only: test_database_uninitialized)
    have shape: "AList.update ''database'' (PStr ?st) (initial_response :: 'o pydict) =
        ?resp ?st (CROSS_MARK @ '' Not Set'') (CROSS_MARK @ '' Not Set'') ''Not Connected'' []"
      by (simp add: initial_response_def)
    show ?thesis
      apply (rule exI[of _ ?st])
      apply (rule exI[of _ "CROSS_MARK @ '' Not Set''"])
      apply (rule exI[of _ "CROSS_MARK @ '' Not Set''"])
      apply (rule exI[of _ "''Not Connected''"])
      apply (rule exI[of _ "[]"])
      using None eq shape by simp
  next
    case (Some d)
    show ?thesis
    proof (cases "list_collection_names d")
      case (Inl e)
      let ?st = "WARNING_SIGN @ '' Connected but Error: '' @ str_slice_to 80 e"
      have eq: "test_database db list_collection_names getenv = Inr (?resp ?st url name ''Connected'' [])"
        using Some Inl
          test_database_fault[where list_collection_names = list_collection_names and d = d
            and e = e and getenv = getenv]
        by (simp add: url_def name_def)
      have ok: "(test_database db (\<lambda>_. Inr []) getenv :: exn + 'o pydict) =
          Inr (?resp (CHECK_MARK @ '' Connected & Working'') url name ''Connected'' [])"
        using Some
          test_database_healthy[where list_collection_names = "\<lambda>_. Inr []" and d = d
            and names = "[]" and getenv = getenv]
        by (simp add: url_def name_def)
      have only: "(test_database db list_collection_names getenv :: exn + 'o pydict) =
            map_sum id (AList.update ''database'' (PStr ?st))
              (test_database db (\<lambda>_. Inr []) getenv)"
        by (simp only: eq ok) simp
      show ?thesis
        apply (rule exI[of _ ?st])
        apply (rule exI[of _ url])
        apply (rule exI[of _ name])
        apply (rule exI[of _ "''Connected''"])
        apply (rule exI[of _ "[]"])
        using Some Inl eq only by simp
    next
      case (Inr found)
      let ?st = "CHECK_MARK @ '' Connected & Working''"
      have eq: "test_database db list_collection_names getenv =
          Inr (?resp ?st url name ''Connected'' (take 10 found))"
        using Some Inr
          test_database_healthy[where list_collection_names = list_collection_names and d = d
            and names = found and getenv = getenv]
        by (simp add: url_def name_def)
      show ?thesis
        apply (rule exI[of _ ?st])
        apply (rule exI[of _ url])
        apply (rule exI[of _ name])
        apply (rule exI[of _ "''Connected''"])
        apply (rule exI[of _ "take 10 found"])
        using Some Inr eq by simp
    qed
  qed
qed

lemma slice_timed_out: "str_slice_to 80 ''timed out'' = ''timed out''"
  by (simp add: is_continuation_def eval_nat_numeral)

theorem test_database_never_raises_witness:
  "(test_database (None :: unit option) two_collections env_alpha :: exn + unit pydict) =
      Inr (AList.update ''database''
             (PStr (WARNING_SIGN @ '' Available but not initialized'')) initial_response)
   \<and> (\<exists>url name.
        (test_database (Some ()) timed_out env_alpha :: exn + unit pydict) =
          Inr [ (''backend'', PStr (CHECK_MARK @ '' Running'')),
                (''database'', PStr (WARNING_SIGN @ '' Connected but Error: timed out'')),
                (''database_url'', PStr url),
                (''database_name'', PStr name),
                (''connection_status'', PStr ''Connected''),
                (''collections'', PList []) ])
   \<and> (\<exists>url name.
        (test_database (Some ()) twelve_collections env_alpha :: exn + unit pydict) =
          Inr [ (''backend'', PStr (CHECK_MARK @ '' Running'')),
                (''database'', PStr (CHECK_MARK @ '' Connected & Working'')),
                (''database_url'', PStr url),
                (''database_name'', PStr name),
                (''connection_status'', PStr ''Connected''),
                (''collections'',
                 PList (map PStr [''c01'', ''c02'', ''c03'', ''c04'', ''c05'', ''c06'', ''c07'',
                                  ''c08'', ''c09'', ''c10''])) ])"
proof (intro conjI)
  show "(test_database (None :: unit option) two_collections env_alpha :: exn + unit pydict) =
      Inr (AList.update ''database''
             (PStr (WARNING_SIGN @ '' Available but not initialized'')) initial_response)"
    using test_database_never_raises[where db = "None :: unit option"
        and list_collection_names = two_collections and getenv = env_alpha and 'o = unit]
    by blast
next
  have raised: "Some () = Some () \<and> timed_out () = Inl ''timed out''"
    by (simp add: timed_out_def)
  from test_database_never_raises[where db = "Some ()"
        and list_collection_names = timed_out and getenv = env_alpha and 'o = unit]
  obtain st url name conn names where
    eq: "(test_database (Some ()) timed_out env_alpha :: exn + unit pydict) =
        Inr [ (''backend'', PStr (CHECK_MARK @ '' Running'')),
              (''database'', PStr st),
              (''database_url'', PStr url),
              (''database_name'', PStr name),
              (''connection_status'', PStr conn),
              (''collections'', PList (map PStr names)) ]"
    and fault: "\<forall>d e. Some () = Some d \<and> timed_out d = Inl e \<longrightarrow>
          st = WARNING_SIGN @ '' Connected but Error: '' @ str_slice_to 80 e
        \<and> conn = ''Connected'' \<and> names = []
        \<and> (test_database (Some ()) timed_out env_alpha :: exn + unit pydict) =
            map_sum id (AList.update ''database'' (PStr st))
              (test_database (Some ()) (\<lambda>_. Inr []) env_alpha)"
    by blast
  from fault raised have "st = WARNING_SIGN @ '' Connected but Error: '' @ str_slice_to 80 ''timed out''"
    and "conn = ''Connected''" and "names = []"
    by blast+
  with eq show "\<exists>url name.
        (test_database (Some ()) timed_out env_alpha :: exn + unit pydict) =
          Inr [ (''backend'', PStr (CHECK_MARK @ '' Running'')),
                (''database'', PStr (WARNING_SIGN @ '' Connected but Error: timed out'')),
                (''database_url'', PStr url),
                (''database_name'', PStr name),
                (''connection_status'', PStr ''Connected''),
                (''collections'', PList []) ]"
    by (simp add: slice_timed_out)
next
  have listed: "Some () = Some () \<and> twelve_collections () =
      Inr [''c01'', ''c02'', ''c03'', ''c04'', ''c05'', ''c06'', ''c07'', ''c08'', ''c09'', ''c10'',
           ''c11'', ''c12'']"
    by (simp add: twelve_collections_def)
  from test_database_never_raises[where db = "Some ()"
        and list_collection_names = twelve_collections and getenv = env_alpha and 'o = unit]
  obtain st url name conn names where
    eq: "(test_database (Some ()) twelve_collections env_alpha :: exn + unit pydict) =
        Inr [ (''backend'', PStr (CHECK_MARK @ '' Running'')),
              (''database'', PStr st),
              (''database_url'', PStr url),
              (''database_name'', PStr name),
              (''connection_status'', PStr conn),
              (''collections'', PList (map PStr names)) ]"
    and healthy: "\<forall>d found. Some () = Some d \<and> twelve_collections d = Inr found \<longrightarrow>
          st = CHECK_MARK @ '' Connected & Working''
        \<and> conn = ''Connected'' \<and> names = take 10 found"
    by blast
  from healthy listed have "st = CHECK_MARK @ '' Connected & Working''"
    and "conn = ''Connected''"
    and "names = take 10 [''c01'', ''c02'', ''c03'', ''c04'', ''c05'', ''c06'', ''c07'', ''c08'',
        ''c09'', ''c10'', ''c11'', ''c12'']"
    by blast+
  with eq show "\<exists>url name.
        (test_database (Some ()) twelve_collections env_alpha :: exn + unit pydict) =
          Inr [ (''backend'', PStr (CHECK_MARK @ '' Running'')),
                (''database'', PStr (CHECK_MARK @ '' Connected & Working'')),
                (''database_url'', PStr url),
                (''database_name'', PStr name),
                (''connection_status'', PStr ''Connected''),
                (''collections'',
                 PList (map PStr [''c01'', ''c02'', ''c03'', ''c04'', ''c05'', ''c06'', ''c07'',
                                  ''c08'', ''c09'', ''c10''])) ]"
    by simp
qed

text \<open>
  Two environments that both set \<^verbatim>\<open>DATABASE_NAME\<close>, and agree on \<^verbatim>\<open>DATABASE_URL\<close>, get
  different answers from \<^verbatim>\<open>GET /test\<close>: the \<^verbatim>\<open>database_name\<close> field is the value of the
  variable, not a flag.
\<close>

theorem test_database_name_counterexample:
  "env_alpha ''DATABASE_NAME'' \<noteq> None
   \<and> env_beta ''DATABASE_NAME'' \<noteq> None
   \<and> env_alpha ''DATABASE_URL'' = env_beta ''DATABASE_URL''
   \<and> (test_database (Some ()) two_collections env_alpha :: exn + unit pydict) =
        Inr [ (''backend'', PStr (CHECK_MARK @ '' Running'')),
              (''database'', PStr (CHECK_MARK @ '' Connected & Working'')),
              (''database_url'', PStr (CHECK_MARK @ '' Set'')),
              (''database_name'', PStr ''alpha''),
              (''connection_status'', PStr ''Connected''),
              (''collections'', PList [PStr ''job'', PStr ''model'']) ]
   \<and> (test_database (Some ()) two_collections env_beta :: exn + unit pydict) =
        Inr [ (''backend'', PStr (CHECK_MARK @ '' Running'')),
              (''database'', PStr (CHECK_MARK @ '' Connected & Working'')),
              (''database_url'', PStr (CHECK_MARK @ '' Set'')),
              (''database_name'', PStr ''beta''),
              (''connection_status'', PStr ''Connected''),
              (''collections'', PList [PStr ''job'', PStr ''model'']) ]
   \<and> (test_database (Some ()) two_collections env_alpha :: exn + unit pydict)
        \<noteq> test_database (Some ()) two_collections env_beta"
proof -
  have two: "two_collections () = Inr [''job'', ''model'']"
    by (simp add: two_collections_def)
  have a: "(test_database (Some ()) two_collections env_alpha :: exn + unit pydict) =
        Inr [ (''backend'', PStr (CHECK_MARK @ '' Running'')),
              (''database'', PStr (CHECK_MARK @ '' Connected & Working'')),
              (''database_url'', PStr (CHECK_MARK @ '' Set'')),
              (''database_name'', PStr ''alpha''),
              (''connection_status'', PStr ''Connected''),
              (''collections'', PList [PStr ''job'', PStr ''model'']) ]"
    using test_database_healthy[where list_collection_names = two_collections and d = "()"
        and names = "[''job'', ''model'']" and getenv = env_alpha] two
    by (simp add: env_alpha_def)
  have b: "(test_database (Some ()) two_collections env_beta :: exn + unit pydict) =
        Inr [ (''backend'', PStr (CHECK_MARK @ '' Running'')),
              (''database'', PStr (CHECK_MARK @ '' Connected & Working'')),
              (''database_url'', PStr (CHECK_MARK @ '' Set'')),
              (''database_name'', PStr ''beta''),
              (''connection_status'', PStr ''Connected''),
              (''collections'', PList [PStr ''job'', PStr ''model'']) ]"
    using test_database_healthy[where list_collection_names = two_collections and d = "()"
        and names = "[''job'', ''model'']" and getenv = env_beta] two
    by (simp add: env_beta_def)
  have ne: "(test_database (Some ()) two_collections env_alpha :: exn + unit pydict)
        \<noteq> test_database (Some ()) two_collections env_beta"
    by (simp only: a b) simp
  have set: "env_alpha ''DATABASE_NAME'' \<noteq> None \<and> env_beta ''DATABASE_NAME'' \<noteq> None
      \<and> env_alpha ''DATABASE_URL'' = env_beta ''DATABASE_URL''"
    by (simp add: env_alpha_def env_beta_def)
  from set a b ne show ?thesis by blast
qed

text \<open>
  C9, as the code has it: the \<^verbatim>\<open>database_url\<close> field is a flag, set exactly when there
  is a store handle and \<^verbatim>\<open>DATABASE_URL\<close> is a non-empty string, and never shows the value;
  the \<^verbatim>\<open>database_name\<close> field is the value of \<^verbatim>\<open>DATABASE_NAME\<close> itself when there is a
  store handle and the value is non-empty, and the not-set text otherwise.
\<close>

theorem test_database_env_fields:
  "\<exists>r. (test_database db list_collection_names getenv :: exn + 'o pydict) = Inr r
     \<and> map_of r ''database_url'' =
         Some (PStr (case getenv ''DATABASE_URL'' of
                       None \<Rightarrow> CROSS_MARK @ '' Not Set''
                     | Some v \<Rightarrow>
                         if db \<noteq> None \<and> v \<noteq> [] then CHECK_MARK @ '' Set''
                         else CROSS_MARK @ '' Not Set''))
     \<and> map_of r ''database_name'' =
         Some (PStr (case getenv ''DATABASE_NAME'' of
                       None \<Rightarrow> CROSS_MARK @ '' Not Set''
                     | Some v \<Rightarrow>
                         if db \<noteq> None \<and> v \<noteq> [] then v else CROSS_MARK @ '' Not Set''))"
proof (cases db)
  case None
  have "(test_database db list_collection_names getenv :: exn + 'o pydict) =
      Inr (AList.update ''database'' (PStr (WARNING_SIGN @ '' Available but not initialized''))
            initial_response)"
    using None by (simp only: test_database_uninitialized)
  then show ?thesis
    using None by (simp add: initial_response_def split: option.split)
next
  case (Some d)
  show ?thesis
  proof (cases "list_collection_names d")
    case (Inl e)
    show ?thesis
      using Some test_database_fault[where list_collection_names = list_collection_names
          and d = d and e = e and getenv = getenv and 'b = 'o] Inl
      by (simp split: option.split)
  next
    case (Inr found)
    show ?thesis
      using Some test_database_healthy[where list_collection_names = list_collection_names
          and d = d and names = found and getenv = getenv and 'b = 'o] Inr
      by (simp split: option.split)
  qed
qed

end
